theory Spec2Isabelle
  imports Main
begin

section \<open>Posts, request bodies and errors\<close>

text \<open>
  The service of \<^verbatim>\<open>app.js\<close> keeps one collection of posts in a document store and
  serves four routes over it. A stored post has the identifier the driver assigned to it
  and the two paths of the schema, \<^verbatim>\<open>title: String\<close> and \<^verbatim>\<open>content: String\<close>, each of
  which may be absent. Identifiers are ObjectIds; they are modelled by their numeric
  value.
\<close>

record post =
  post_id :: nat
  title :: "string option"
  content :: "string option"

text \<open>
  A request body is an untyped JSON object, and the handlers hand it to the Post model as
  it is. The model reads it in two ways: \<^verbatim>\<open>new Post\<close> reads it as a document, and
  \<^verbatim>\<open>findByIdAndUpdate\<close> reads it as an update document. The parts of a body that
  either reading looks at are:
  \<^item> the member \<^verbatim>\<open>_id\<close>: not there, a value that casts to an ObjectId, or a value the
    ObjectId type rejects;
  \<^item> the members \<^verbatim>\<open>title\<close> and \<^verbatim>\<open>content\<close>: not there, \<^verbatim>\<open>null\<close>, a value the
    schema type String accepts (as the text \<open>s\<close>), or a value String rejects (an object
    or an array);
  \<^item> the members of the update operator \<^verbatim>\<open>$set\<close> for the two paths, with the same
    four cases, and whether the update operator \<^verbatim>\<open>$unset\<close> names each path.
  Members outside the schema are dropped by the model's strict mode and play no part.
  Update operators other than \<^verbatim>\<open>$set\<close> and \<^verbatim>\<open>$unset\<close> are not modelled. In a stored
  post an absent path and a path that holds \<^verbatim>\<open>null\<close> are both \<open>None\<close>.
\<close>

datatype field = Omitted | Null | Text string | Uncastable

datatype id_member = NoId | IdValue nat | IdRejected

record body =
  body_id :: id_member
  body_title :: field
  body_content :: field
  set_title :: field
  set_content :: field
  unset_title :: bool
  unset_content :: bool

text \<open>The empty object; the bodies of the examples are built from it.\<close>

definition no_members :: body where
  "no_members =
     \<lparr>body_id = NoId, body_title = Omitted, body_content = Omitted,
      set_title = Omitted, set_content = Omitted,
      unset_title = False, unset_content = False\<rparr>"

definition castable :: "field \<Rightarrow> bool" where
  "castable f = (case f of Uncastable \<Rightarrow> False | _ \<Rightarrow> True)"

text \<open>
  Read as a document, a body is acceptable when its three schema members cast; the
  update operators are not schema paths and are dropped.
\<close>

definition castable_body :: "body \<Rightarrow> bool" where
  "castable_body b =
     (castable (body_title b) \<and> castable (body_content b) \<and> body_id b \<noteq> IdRejected)"

definition field_value :: "field \<Rightarrow> string option" where
  "field_value f = (case f of Text s \<Rightarrow> Some s | _ \<Rightarrow> None)"

text \<open>
  The errors a store call can throw: a document that fails validation on \<^verbatim>\<open>save\<close>, a
  value that cannot be cast (an identifier or an update), the three refusals of the
  server that a body can provoke (an insertion under an identifier that is in use, an
  update that sets and unsets the same path, an update that would change the identifier
  of the document), and any other failure of the connection or of the server, with the
  driver's message.
\<close>

datatype error =
  ValidationError | CastError | DuplicateKey | ConflictingUpdate | ImmutableField
  | StorageError string

subsection \<open>Identifiers in the request path\<close>

text \<open>
  \<^verbatim>\<open>req.params.postId\<close> is a string, and the Post model casts it to an ObjectId
  before it queries. The cast is the driver's, not the program's; it is modelled for the
  form in which the service itself hands identifiers out, 24 hexadecimal digits in either
  case of the letters. The handlers depend on the string through the result of the cast
  only: \<open>None\<close> when the store cannot take it as an identifier, the identifier
  otherwise.
\<close>

definition hex_digit :: "char \<Rightarrow> nat option" where
  "hex_digit c =
     (let n = (of_char c :: nat) in
      if 48 \<le> n \<and> n \<le> 57 then Some (n - 48)
      else if 97 \<le> n \<and> n \<le> 102 then Some (n - 87)
      else if 65 \<le> n \<and> n \<le> 70 then Some (n - 55)
      else None)"

fun hex_value :: "nat \<Rightarrow> string \<Rightarrow> nat option" where
  "hex_value acc [] = Some acc"
| "hex_value acc (c # cs) =
     (case hex_digit c of None \<Rightarrow> None | Some d \<Rightarrow> hex_value (16 * acc + d) cs)"

definition castObjectId :: "string \<Rightarrow> nat option" where
  "castObjectId s = (if length s = 24 then hex_value 0 s else None)"

section \<open>Effects of a handler\<close>

text \<open>
  A handler talks to three collaborators: the store, the HTTP response and the logger.
  Each call is recorded as an event, in program order. The messages of the logger and the
  body of the 404 response are fixed literals of the source (in Russian); they are named
  here by what they say: \<open>PostCreated\<close> and \<open>CreateFailed\<close> are the messages of the
  two logger calls of \<^verbatim>\<open>app.post\<close>, \<open>PostsFetched\<close> and \<open>FetchFailed\<close> those of
  \<^verbatim>\<open>app.get\<close>, \<open>PostUpdated\<close> and \<open>UpdateFailed\<close> those of \<^verbatim>\<open>app.put\<close>,
  \<open>PostDeleted\<close> and \<open>DeleteFailed\<close> those of \<^verbatim>\<open>app.delete\<close>, and
  \<open>NotFoundMessage\<close> is the object both handlers with an identifier send with 404.
  \<open>DocsPage\<close> stands for whatever the documentation viewer serves and \<open>CannotRoute\<close>
  for the framework's answer to a request no layer matches.
\<close>

datatype level = Info | Error

datatype message =
  PostCreated | CreateFailed | PostsFetched | FetchFailed
  | PostUpdated | UpdateFailed | PostDeleted | DeleteFailed

datatype payload =
  PostBody post | PostList "post list" | ErrorBody error | NotFoundMessage | NoBody
  | DocsPage | CannotRoute

datatype store_call = Save | Find | FindByIdAndUpdate | FindByIdAndDelete

datatype event =
  Called store_call
  | Responded nat payload
  | Logged level message payload

record store =
  docs :: "post list"
  next_id :: nat

text \<open>
  An \<^verbatim>\<open>await\<close>ed call either returns a value or throws. A computation takes the store
  and gives back how it completed, the store it leaves and the events it produced.
\<close>

datatype 'a completion = Returned 'a | Thrown error

type_synonym 'a action = "store \<Rightarrow> 'a completion \<times> store \<times> event list"

definition ret :: "'a \<Rightarrow> 'a action" where
  "ret x st = (Returned x, st, [])"

definition throw :: "error \<Rightarrow> 'a action" where
  "throw e st = (Thrown e, st, [])"

definition emit :: "event \<Rightarrow> unit action" where
  "emit ev st = (Returned (), st, [ev])"

definition and_then :: "'a action \<Rightarrow> ('a \<Rightarrow> 'b action) \<Rightarrow> 'b action" where
  "and_then m f st =
     (case m st of
        (Returned x, st1, t1) \<Rightarrow> (case f x st1 of (r, st2, t2) \<Rightarrow> (r, st2, t1 @ t2))
      | (Thrown e, st1, t1) \<Rightarrow> (Thrown e, st1, t1))"

definition try_catch :: "'a action \<Rightarrow> (error \<Rightarrow> 'a action) \<Rightarrow> 'a action" where
  "try_catch m h st =
     (case m st of
        (Returned x, st1, t1) \<Rightarrow> (Returned x, st1, t1)
      | (Thrown e, st1, t1) \<Rightarrow> (case h e st1 of (r, st2, t2) \<Rightarrow> (r, st2, t1 @ t2)))"

definition send :: "nat \<Rightarrow> payload \<Rightarrow> unit action" where
  "send code b = emit (Responded code b)"

definition logger_info :: "message \<Rightarrow> payload \<Rightarrow> unit action" where
  "logger_info m x = emit (Logged Info m x)"

definition logger_error :: "message \<Rightarrow> payload \<Rightarrow> unit action" where
  "logger_error m x = emit (Logged Error m x)"

section \<open>The four calls on the Post model\<close>

text \<open>
  The store is the collection of documents in insertion order together with the supply
  of fresh identifiers. Whether the connection fails at a call is outside the program:
  it is the input \<open>fault\<close> of every call that reaches the server, \<open>Some e\<close> when the
  call fails there with \<open>e\<close>.

  \<^verbatim>\<open>new Post(req.body)\<close> builds a document from the members of the body that cast:
  it keeps the identifier the body supplies and generates a fresh one when the body has
  none. A member that cannot be cast is remembered and reported by \<^verbatim>\<open>save\<close>, which
  validates before it inserts. The server refuses a document whose identifier is in use,
  whether the body supplied the identifier or the driver generated it.

  The driver's supply of identifiers is a counter, which only a generation moves.
\<close>

definition new_Post :: "body \<Rightarrow> (post \<times> bool) action" where
  "new_Post b st =
     (Returned
        (\<lparr>post_id = (case body_id b of IdValue j \<Rightarrow> j | _ \<Rightarrow> next_id st),
          title = field_value (body_title b),
          content = field_value (body_content b)\<rparr>,
         castable_body b),
      (case body_id b of
         NoId \<Rightarrow> st\<lparr>next_id := Suc (next_id st)\<rparr>
       | _ \<Rightarrow> st), [])"

definition find_by_id :: "nat \<Rightarrow> post list \<Rightarrow> post option" where
  "find_by_id i ps = List.find (\<lambda>p. post_id p = i) ps"

definition post_save :: "error option \<Rightarrow> post \<times> bool \<Rightarrow> unit action" where
  "post_save fault d =
     and_then (emit (Called Save)) (\<lambda>_ st.
       if \<not> snd d then throw ValidationError st
       else (case fault of
               Some e \<Rightarrow> throw e st
             | None \<Rightarrow>
                 (case find_by_id (post_id (fst d)) (docs st) of
                    Some q \<Rightarrow> throw DuplicateKey st
                  | None \<Rightarrow>
                      (Returned (), st\<lparr>docs := docs st @ [fst d]\<rparr>, []))))"

definition Post_find :: "error option \<Rightarrow> post list action" where
  "Post_find fault =
     and_then (emit (Called Find)) (\<lambda>_ st.
       case fault of Some e \<Rightarrow> throw e st | None \<Rightarrow> ret (docs st) st)"

text \<open>
  \<^verbatim>\<open>findByIdAndUpdate(id, update, {new: true})\<close> casts the identifier and the update,
  then asks the server to apply the update to the document with that identifier and
  answers the document as updated, or \<^verbatim>\<open>null\<close> when there is none.

  The top-level members of the body that are not update operators are moved under
  \<^verbatim>\<open>$set\<close>, where they replace a member of the same name; \<open>update_title\<close> and
  \<open>update_content\<close> are what \<^verbatim>\<open>$set\<close> then holds for the two paths. These values and
  the \<^verbatim>\<open>_id\<close> member are cast. The server refuses an update that sets and unsets the
  same path, and one that would give the document another identifier. It applies the
  others: a path that \<^verbatim>\<open>$unset\<close> names, or that is set to \<^verbatim>\<open>null\<close>, is cleared; a
  path that is set to a text gets that text; every other path keeps its value.
\<close>

definition assigned :: "field \<Rightarrow> field \<Rightarrow> field" where
  "assigned plain under_set = (case plain of Omitted \<Rightarrow> under_set | _ \<Rightarrow> plain)"

definition update_title :: "body \<Rightarrow> field" where
  "update_title b = assigned (body_title b) (set_title b)"

definition update_content :: "body \<Rightarrow> field" where
  "update_content b = assigned (body_content b) (set_content b)"

definition castable_update :: "body \<Rightarrow> bool" where
  "castable_update b =
     (castable (update_title b) \<and> castable (update_content b) \<and> body_id b \<noteq> IdRejected)"

definition conflicting :: "body \<Rightarrow> bool" where
  "conflicting b =
     ((unset_title b \<and> update_title b \<noteq> Omitted)
      \<or> (unset_content b \<and> update_content b \<noteq> Omitted))"

definition changes_id :: "body \<Rightarrow> post \<Rightarrow> bool" where
  "changes_id b p = (case body_id b of IdValue j \<Rightarrow> j \<noteq> post_id p | _ \<Rightarrow> False)"

definition apply_set :: "field \<Rightarrow> bool \<Rightarrow> string option \<Rightarrow> string option" where
  "apply_set f unset old =
     (if unset then None
      else (case f of Text s \<Rightarrow> Some s | Null \<Rightarrow> None | _ \<Rightarrow> old))"

definition set_fields :: "body \<Rightarrow> post \<Rightarrow> post" where
  "set_fields b p =
     p\<lparr>title := apply_set (update_title b) (unset_title b) (title p),
       content := apply_set (update_content b) (unset_content b) (content p)\<rparr>"

fun update_first :: "nat \<Rightarrow> (post \<Rightarrow> post) \<Rightarrow> post list \<Rightarrow> post list" where
  "update_first i f [] = []"
| "update_first i f (p # ps) =
     (if post_id p = i then f p # ps else p # update_first i f ps)"

fun remove_first :: "nat \<Rightarrow> post list \<Rightarrow> post list" where
  "remove_first i [] = []"
| "remove_first i (p # ps) = (if post_id p = i then ps else p # remove_first i ps)"

definition Post_findByIdAndUpdate ::
  "error option \<Rightarrow> string \<Rightarrow> body \<Rightarrow> post option action" where
  "Post_findByIdAndUpdate fault pid b =
     and_then (emit (Called FindByIdAndUpdate)) (\<lambda>_ st.
       case castObjectId pid of
         None \<Rightarrow> throw CastError st
       | Some i \<Rightarrow>
           if \<not> castable_update b then throw CastError st
           else (case fault of
                   Some e \<Rightarrow> throw e st
                 | None \<Rightarrow>
                     if conflicting b then throw ConflictingUpdate st
                     else (case find_by_id i (docs st) of
                        None \<Rightarrow> ret None st
                      | Some p \<Rightarrow>
                          if changes_id b p then throw ImmutableField st
                          else (Returned (Some (set_fields b p)),
                                st\<lparr>docs := update_first i (set_fields b) (docs st)\<rparr>,
                                []))))"

definition Post_findByIdAndDelete :: "error option \<Rightarrow> string \<Rightarrow> post option action" where
  "Post_findByIdAndDelete fault pid =
     and_then (emit (Called FindByIdAndDelete)) (\<lambda>_ st.
       case castObjectId pid of
         None \<Rightarrow> throw CastError st
       | Some i \<Rightarrow>
           (case fault of
              Some e \<Rightarrow> throw e st
            | None \<Rightarrow>
                (case find_by_id i (docs st) of
                   None \<Rightarrow> ret None st
                 | Some p \<Rightarrow> (Returned (Some p), st\<lparr>docs := remove_first i (docs st)\<rparr>, []))))"

section \<open>The route handlers\<close>

text \<open>
  Each handler is one \<^verbatim>\<open>try\<close> block around a store call, a response and a logger
  call, with a \<^verbatim>\<open>catch\<close> block that responds and logs. The handlers of the two
  routes with an identifier leave the \<^verbatim>\<open>try\<close> block with \<^verbatim>\<open>return\<close> right after
  the 404 response.
\<close>

definition post_posts :: "error option \<Rightarrow> body \<Rightarrow> unit action" where
  "post_posts fault b =
     try_catch
       (and_then (new_Post b) (\<lambda>post.
        and_then (post_save fault post) (\<lambda>_.
        and_then (send 201 (PostBody (fst post))) (\<lambda>_.
        logger_info PostCreated (PostBody (fst post))))))
       (\<lambda>error.
        and_then (send 400 (ErrorBody error)) (\<lambda>_.
        logger_error CreateFailed (ErrorBody error)))"

definition get_posts :: "error option \<Rightarrow> unit action" where
  "get_posts fault =
     try_catch
       (and_then (Post_find fault) (\<lambda>posts.
        and_then (send 200 (PostList posts)) (\<lambda>_.
        logger_info PostsFetched (PostList posts))))
       (\<lambda>error.
        and_then (send 500 (ErrorBody error)) (\<lambda>_.
        logger_error FetchFailed (ErrorBody error)))"

definition put_posts :: "error option \<Rightarrow> string \<Rightarrow> body \<Rightarrow> unit action" where
  "put_posts fault postId b =
     try_catch
       (and_then (Post_findByIdAndUpdate fault postId b) (\<lambda>post.
        case post of
          None \<Rightarrow> send 404 NotFoundMessage
        | Some p \<Rightarrow>
            and_then (send 200 (PostBody p)) (\<lambda>_.
            logger_info PostUpdated (PostBody p))))
       (\<lambda>error.
        and_then (send 400 (ErrorBody error)) (\<lambda>_.
        logger_error UpdateFailed (ErrorBody error)))"

definition delete_posts :: "error option \<Rightarrow> string \<Rightarrow> unit action" where
  "delete_posts fault postId =
     try_catch
       (and_then (Post_findByIdAndDelete fault postId) (\<lambda>post.
        case post of
          None \<Rightarrow> send 404 NotFoundMessage
        | Some p \<Rightarrow>
            and_then (send 204 NoBody) (\<lambda>_.
            logger_info PostDeleted (PostBody p))))
       (\<lambda>error.
        and_then (send 500 (ErrorBody error)) (\<lambda>_.
        logger_error DeleteFailed (ErrorBody error)))"

text \<open>A request to one of the four routes, and the handler that serves it.\<close>

datatype request = Create body | ListAll | Update string body | Delete string

fun handle :: "error option \<Rightarrow> request \<Rightarrow> unit action" where
  "handle fault (Create b) = post_posts fault b"
| "handle fault ListAll = get_posts fault"
| "handle fault (Update postId b) = put_posts fault postId b"
| "handle fault (Delete postId) = delete_posts fault postId"

text \<open>
  Requests arrive one after the other; each comes with the fault the store has, or has
  not, at that moment. \<open>run\<close> gives the store a sequence of requests leaves.
\<close>

fun run :: "(error option \<times> request) list \<Rightarrow> store \<Rightarrow> store" where
  "run [] st = st"
| "run ((fault, req) # rest) st = run rest (fst (snd (handle fault req st)))"

section \<open>Routing\<close>

text \<open>
  The application registers, in this order, the four routes and then the documentation
  viewer with \<^verbatim>\<open>app.use\<close>. A request goes to the first layer whose path matches.
  Route paths match the whole request path, without regard to the case of letters and
  with an optional closing slash; \<^verbatim>\<open>:postId\<close> matches one non-empty segment, which is
  handed on as it stands in the path (the framework's percent-decoding of it is not
  modelled). A path
  given to \<^verbatim>\<open>app.use\<close> matches every request path that starts with it and goes on
  with a slash or ends there, whatever the verb.
\<close>

datatype verb = GET | POST | PUT | DELETE

definition lower :: "char \<Rightarrow> char" where
  "lower c =
     (let n = (of_char c :: nat) in if 65 \<le> n \<and> n \<le> 90 then char_of (n + 32) else c)"

fun strip_prefix_ci :: "string \<Rightarrow> string \<Rightarrow> string option" where
  "strip_prefix_ci [] p = Some p"
| "strip_prefix_ci (c # cs) [] = None"
| "strip_prefix_ci (c # cs) (d # ds) =
     (if lower c = lower d then strip_prefix_ci cs ds else None)"

definition match_posts :: "string \<Rightarrow> bool" where
  "match_posts p =
     (case strip_prefix_ci ''/posts'' p of
        None \<Rightarrow> False
      | Some r \<Rightarrow> r = [] \<or> r = ''/'')"

definition match_posts_postId :: "string \<Rightarrow> string option" where
  "match_posts_postId p =
     (case strip_prefix_ci ''/posts/'' p of
        None \<Rightarrow> None
      | Some r \<Rightarrow>
          (let seg = takeWhile (\<lambda>c. c \<noteq> CHR ''/'') r;
               r' = dropWhile (\<lambda>c. c \<noteq> CHR ''/'') r
           in if seg \<noteq> [] \<and> (r' = [] \<or> r' = ''/'') then Some seg else None))"

definition match_use :: "string \<Rightarrow> string \<Rightarrow> bool" where
  "match_use mount p =
     (case strip_prefix_ci mount p of
        None \<Rightarrow> False
      | Some [] \<Rightarrow> True
      | Some (c # _) \<Rightarrow> c = CHR ''/'')"

text \<open>The path the source gives to \<^verbatim>\<open>app.use\<close> for the documentation viewer.\<close>

definition docs_path :: string where
  "docs_path = ''`/api-docs`''"

datatype layer = PostRoute | GetRoute | PutRoute | DeleteRoute | DocsUse string

datatype endpoint =
  PostPosts | GetPosts | PutPosts string | DeletePosts string | ApiDocs | Unmatched

fun layer_match :: "layer \<Rightarrow> verb \<Rightarrow> string \<Rightarrow> endpoint option" where
  "layer_match PostRoute m p = (if m = POST \<and> match_posts p then Some PostPosts else None)"
| "layer_match GetRoute m p = (if m = GET \<and> match_posts p then Some GetPosts else None)"
| "layer_match PutRoute m p =
     (if m = PUT then map_option PutPosts (match_posts_postId p) else None)"
| "layer_match DeleteRoute m p =
     (if m = DELETE then map_option DeletePosts (match_posts_postId p) else None)"
| "layer_match (DocsUse mount) m p = (if match_use mount p then Some ApiDocs else None)"

fun route :: "layer list \<Rightarrow> verb \<Rightarrow> string \<Rightarrow> endpoint" where
  "route [] m p = Unmatched"
| "route (l # ls) m p = (case layer_match l m p of Some e \<Rightarrow> e | None \<Rightarrow> route ls m p)"

definition crud_layers :: "layer list" where
  "crud_layers = [PostRoute, GetRoute, PutRoute, DeleteRoute]"

definition app_layers :: "layer list" where
  "app_layers = crud_layers @ [DocsUse docs_path]"

record http_request =
  req_verb :: verb
  req_path :: string
  req_body :: body

definition serve :: "layer list \<Rightarrow> error option \<Rightarrow> http_request \<Rightarrow> unit action" where
  "serve layers fault req =
     (case route layers (req_verb req) (req_path req) of
        PostPosts \<Rightarrow> post_posts fault (req_body req)
      | GetPosts \<Rightarrow> get_posts fault
      | PutPosts postId \<Rightarrow> put_posts fault postId (req_body req)
      | DeletePosts postId \<Rightarrow> delete_posts fault postId
      | ApiDocs \<Rightarrow> send 200 DocsPage
      | Unmatched \<Rightarrow> send 404 CannotRoute)"

section \<open>Observations on a handler's events\<close>

fun responses :: "event list \<Rightarrow> (nat \<times> payload) list" where
  "responses [] = []"
| "responses (Responded code b # t) = (code, b) # responses t"
| "responses (_ # t) = responses t"

fun logged :: "event list \<Rightarrow> (level \<times> message \<times> payload) list" where
  "logged [] = []"
| "logged (Logged l m x # t) = (l, m, x) # logged t"
| "logged (_ # t) = logged t"

fun calls :: "event list \<Rightarrow> store_call list" where
  "calls [] = []"
| "calls (Called c # t) = c # calls t"
| "calls (_ # t) = calls t"

text \<open>
  Whether, reading the events in order, a logger entry comes before the response is
  sent.
\<close>

fun log_precedes_response :: "event list \<Rightarrow> bool" where
  "log_precedes_response [] = False"
| "log_precedes_response (Logged l m x # t) = True"
| "log_precedes_response (Responded code b # t) = False"
| "log_precedes_response (Called c # t) = log_precedes_response t"

text \<open>
  The store call of each handler on its own, and the status its \<^verbatim>\<open>catch\<close> block
  answers with.
\<close>

fun store_op :: "error option \<Rightarrow> request \<Rightarrow> unit action" where
  "store_op fault (Create b) = and_then (new_Post b) (post_save fault)"
| "store_op fault ListAll = and_then (Post_find fault) (\<lambda>_. ret ())"
| "store_op fault (Update postId b) =
     and_then (Post_findByIdAndUpdate fault postId b) (\<lambda>_. ret ())"
| "store_op fault (Delete postId) =
     and_then (Post_findByIdAndDelete fault postId) (\<lambda>_. ret ())"

fun catch_status :: "request \<Rightarrow> nat" where
  "catch_status (Create b) = 400"
| "catch_status ListAll = 500"
| "catch_status (Update postId b) = 400"
| "catch_status (Delete postId) = 500"

fun catch_message :: "request \<Rightarrow> message" where
  "catch_message (Create b) = CreateFailed"
| "catch_message ListAll = FetchFailed"
| "catch_message (Update postId b) = UpdateFailed"
| "catch_message (Delete postId) = DeleteFailed"

section \<open>Well-formed stores\<close>

text \<open>
  A store is well formed when the stored posts have distinct identifiers, all below the
  next one the driver generates. The server keeps the identifiers distinct. They stay
  below the counter as long as every identifier a body supplies is one the driver has
  generated before; \<open>foresees\<close> says that a request supplies one it has not, and
  \<open>unforeseen\<close> that no request of a sequence does.
\<close>

definition wf_store :: "store \<Rightarrow> bool" where
  "wf_store st =
     (distinct (map post_id (docs st)) \<and> list_all (\<lambda>p. post_id p < next_id st) (docs st))"

text \<open>
  Two shorthands for the statements that follow: the document \<^verbatim>\<open>new Post\<close> builds
  from a body in a store, and the two events of a \<^verbatim>\<open>catch\<close> block.
\<close>

definition created :: "body \<Rightarrow> store \<Rightarrow> post" where
  "created b st =
     \<lparr>post_id = (case body_id b of IdValue j \<Rightarrow> j | _ \<Rightarrow> next_id st),
      title = field_value (body_title b),
      content = field_value (body_content b)\<rparr>"

text \<open>
  The store after \<^verbatim>\<open>new Post\<close> alone, and after \<^verbatim>\<open>new Post\<close> and a \<^verbatim>\<open>save\<close>
  that inserts.
\<close>

definition drafted :: "body \<Rightarrow> store \<Rightarrow> store" where
  "drafted b st = (case body_id b of NoId \<Rightarrow> st\<lparr>next_id := Suc (next_id st)\<rparr> | _ \<Rightarrow> st)"

definition inserted :: "body \<Rightarrow> store \<Rightarrow> store" where
  "inserted b st = (drafted b st)\<lparr>docs := docs st @ [created b st]\<rparr>"

fun foresees :: "store \<Rightarrow> request \<Rightarrow> bool" where
  "foresees st (Create b) =
     (case body_id b of IdValue j \<Rightarrow> next_id st \<le> j | _ \<Rightarrow> False)"
| "foresees st ListAll = False"
| "foresees st (Update postId b) = False"
| "foresees st (Delete postId) = False"

fun unforeseen :: "(error option \<times> request) list \<Rightarrow> store \<Rightarrow> bool" where
  "unforeseen [] st = True"
| "unforeseen ((fault, req) # rest) st =
     (\<not> foresees st req \<and> unforeseen rest (fst (snd (handle fault req st))))"


text \<open>Whether the server takes a body as an update of a post.\<close>

definition accepted_update :: "body \<Rightarrow> post \<Rightarrow> bool" where
  "accepted_update b p = (castable_update b \<and> \<not> conflicting b \<and> \<not> changes_id b p)"

definition failed :: "nat \<Rightarrow> message \<Rightarrow> error \<Rightarrow> event list" where
  "failed code m e = [Responded code (ErrorBody e), Logged Error m (ErrorBody e)]"

section \<open>What each handler does, case by case\<close>

lemmas action_defs =
  ret_def throw_def emit_def and_then_def try_catch_def send_def logger_info_def
  logger_error_def

lemma post_posts_ok:
  "castable_body b \<Longrightarrow> find_by_id (post_id (created b st)) (docs st) = None \<Longrightarrow>
   post_posts None b st =
     (Returned (), inserted b st,
      [Called Save, Responded 201 (PostBody (created b st)),
       Logged Info PostCreated (PostBody (created b st))])"
  by (cases "body_id b")
    (simp_all add: post_posts_def new_Post_def post_save_def action_defs created_def
      inserted_def drafted_def)

lemma post_posts_invalid:
  "\<not> castable_body b \<Longrightarrow>
   post_posts fault b st =
     (Returned (), drafted b st, Called Save # failed 400 CreateFailed ValidationError)"
  by (cases "body_id b")
    (simp_all add: post_posts_def new_Post_def post_save_def action_defs failed_def
      drafted_def)

lemma post_posts_fault:
  "castable_body b \<Longrightarrow>
   post_posts (Some e) b st =
     (Returned (), drafted b st, Called Save # failed 400 CreateFailed e)"
  by (cases "body_id b")
    (simp_all add: post_posts_def new_Post_def post_save_def action_defs failed_def
      drafted_def)

lemma post_posts_duplicate:
  "castable_body b \<Longrightarrow> find_by_id (post_id (created b st)) (docs st) = Some q \<Longrightarrow>
   post_posts None b st =
     (Returned (), drafted b st, Called Save # failed 400 CreateFailed DuplicateKey)"
  by (cases "body_id b")
    (simp_all add: post_posts_def new_Post_def post_save_def action_defs failed_def
      drafted_def created_def)

lemma get_posts_ok:
  "get_posts None st =
     (Returned (), st,
      [Called Find, Responded 200 (PostList (docs st)),
       Logged Info PostsFetched (PostList (docs st))])"
  by (simp add: get_posts_def Post_find_def action_defs)

lemma get_posts_fault:
  "get_posts (Some e) st = (Returned (), st, Called Find # failed 500 FetchFailed e)"
  by (simp add: get_posts_def Post_find_def action_defs failed_def)

lemma put_posts_malformed:
  "castObjectId postId = None \<Longrightarrow>
   put_posts fault postId b st =
     (Returned (), st, Called FindByIdAndUpdate # failed 400 UpdateFailed CastError)"
  by (simp add: put_posts_def Post_findByIdAndUpdate_def action_defs failed_def)

lemma put_posts_uncastable:
  "castObjectId postId = Some i \<Longrightarrow> \<not> castable_update b \<Longrightarrow>
   put_posts fault postId b st =
     (Returned (), st, Called FindByIdAndUpdate # failed 400 UpdateFailed CastError)"
  by (simp add: put_posts_def Post_findByIdAndUpdate_def action_defs failed_def)

lemma put_posts_fault:
  "castObjectId postId = Some i \<Longrightarrow> castable_update b \<Longrightarrow>
   put_posts (Some e) postId b st =
     (Returned (), st, Called FindByIdAndUpdate # failed 400 UpdateFailed e)"
  by (simp add: put_posts_def Post_findByIdAndUpdate_def action_defs failed_def)

lemma put_posts_conflicting:
  "castObjectId postId = Some i \<Longrightarrow> castable_update b \<Longrightarrow> conflicting b \<Longrightarrow>
   put_posts None postId b st =
     (Returned (), st, Called FindByIdAndUpdate # failed 400 UpdateFailed ConflictingUpdate)"
  by (simp add: put_posts_def Post_findByIdAndUpdate_def action_defs failed_def)

lemma put_posts_absent:
  "castObjectId postId = Some i \<Longrightarrow> castable_update b \<Longrightarrow> \<not> conflicting b \<Longrightarrow>
   find_by_id i (docs st) = None \<Longrightarrow>
   put_posts None postId b st =
     (Returned (), st, [Called FindByIdAndUpdate, Responded 404 NotFoundMessage])"
  by (simp add: put_posts_def Post_findByIdAndUpdate_def action_defs)

lemma put_posts_immutable:
  "castObjectId postId = Some i \<Longrightarrow> castable_update b \<Longrightarrow> \<not> conflicting b \<Longrightarrow>
   find_by_id i (docs st) = Some p \<Longrightarrow> changes_id b p \<Longrightarrow>
   put_posts None postId b st =
     (Returned (), st, Called FindByIdAndUpdate # failed 400 UpdateFailed ImmutableField)"
  by (simp add: put_posts_def Post_findByIdAndUpdate_def action_defs failed_def)

lemma put_posts_found:
  "castObjectId postId = Some i \<Longrightarrow> find_by_id i (docs st) = Some p \<Longrightarrow>
   accepted_update b p \<Longrightarrow>
   put_posts None postId b st =
     (Returned (), st\<lparr>docs := update_first i (set_fields b) (docs st)\<rparr>,
      [Called FindByIdAndUpdate, Responded 200 (PostBody (set_fields b p)),
       Logged Info PostUpdated (PostBody (set_fields b p))])"
  by (simp add: put_posts_def Post_findByIdAndUpdate_def action_defs accepted_update_def)

lemma put_posts_refused:
  "castObjectId postId = Some i \<Longrightarrow> find_by_id i (docs st) = Some p \<Longrightarrow>
   \<not> accepted_update b p \<Longrightarrow>
   \<exists>e. put_posts None postId b st =
     (Returned (), st, Called FindByIdAndUpdate # failed 400 UpdateFailed e)"
  by (auto simp: put_posts_def Post_findByIdAndUpdate_def action_defs accepted_update_def
      failed_def)

lemma delete_posts_malformed:
  "castObjectId postId = None \<Longrightarrow>
   delete_posts fault postId st =
     (Returned (), st, Called FindByIdAndDelete # failed 500 DeleteFailed CastError)"
  by (simp add: delete_posts_def Post_findByIdAndDelete_def action_defs failed_def)

lemma delete_posts_fault:
  "castObjectId postId = Some i \<Longrightarrow>
   delete_posts (Some e) postId st =
     (Returned (), st, Called FindByIdAndDelete # failed 500 DeleteFailed e)"
  by (simp add: delete_posts_def Post_findByIdAndDelete_def action_defs failed_def)

lemma delete_posts_absent:
  "castObjectId postId = Some i \<Longrightarrow> find_by_id i (docs st) = None \<Longrightarrow>
   delete_posts None postId st =
     (Returned (), st, [Called FindByIdAndDelete, Responded 404 NotFoundMessage])"
  by (simp add: delete_posts_def Post_findByIdAndDelete_def action_defs)

lemma delete_posts_found:
  "castObjectId postId = Some i \<Longrightarrow> find_by_id i (docs st) = Some p \<Longrightarrow>
   delete_posts None postId st =
     (Returned (), st\<lparr>docs := remove_first i (docs st)\<rparr>,
      [Called FindByIdAndDelete, Responded 204 NoBody, Logged Info PostDeleted (PostBody p)])"
  by (simp add: delete_posts_def Post_findByIdAndDelete_def action_defs)

subsection \<open>Finding, updating and removing a post in the collection\<close>

lemma find_by_id_None: "find_by_id i ps = None \<longleftrightarrow> i \<notin> post_id ` set ps"
  by (induction ps) (auto simp: find_by_id_def)

lemma find_by_id_Some: "find_by_id i ps = Some p \<Longrightarrow> p \<in> set ps \<and> post_id p = i"
  by (induction ps) (auto simp: find_by_id_def split: if_splits)

lemma post_id_set_fields: "post_id (set_fields b p) = post_id p"
  by (simp add: set_fields_def)

lemma ids_update_first:
  "map post_id (update_first i (set_fields b) ps) = map post_id ps"
  by (induction ps) (simp_all add: post_id_set_fields)

lemma find_update_first_same:
  "find_by_id i (update_first i (set_fields b) ps) = map_option (set_fields b) (find_by_id i ps)"
  by (induction ps) (simp_all add: find_by_id_def post_id_set_fields)

lemma find_update_first_other:
  "j \<noteq> i \<Longrightarrow> find_by_id j (update_first i (set_fields b) ps) = find_by_id j ps"
  by (induction ps) (simp_all add: find_by_id_def post_id_set_fields)

lemma ids_remove_first: "map post_id (remove_first i ps) = remove1 i (map post_id ps)"
  by (induction ps) auto

lemma set_remove_first: "set (remove_first i ps) \<subseteq> set ps"
  by (induction ps) auto


lemma find_remove_first_other:
  "j \<noteq> i \<Longrightarrow> find_by_id j (remove_first i ps) = find_by_id j ps"
  by (induction ps) (simp_all add: find_by_id_def)

subsection \<open>The handlers keep the store well-formed\<close>

lemma set_ids_update_first:
  "post_id ` set (update_first i (set_fields b) ps) = post_id ` set ps"
  using arg_cong [OF ids_update_first, of set i b ps] by simp

lemma wf_store_update:
  assumes "wf_store st"
  shows "wf_store (st\<lparr>docs := update_first i (set_fields b) (docs st)\<rparr>)"
proof -
  have "\<forall>k \<in> post_id ` set (update_first i (set_fields b) (docs st)). k < next_id st"
    unfolding set_ids_update_first using assms by (auto simp: wf_store_def list_all_iff)
  then have "\<forall>p \<in> set (update_first i (set_fields b) (docs st)). post_id p < next_id st"
    by blast
  then show ?thesis
    using assms by (simp add: wf_store_def ids_update_first list_all_iff)
qed

lemma wf_store_remove:
  "wf_store st \<Longrightarrow> wf_store (st\<lparr>docs := remove_first i (docs st)\<rparr>)"
  using set_remove_first [of i "docs st"]
  by (auto simp: wf_store_def ids_remove_first list_all_iff)

lemma wf_store_drafted: "wf_store st \<Longrightarrow> wf_store (drafted b st)"
  by (cases "body_id b") (auto simp: wf_store_def list_all_iff less_Suc_eq drafted_def)

lemma next_id_drafted: "next_id st \<le> next_id (drafted b st)"
  by (cases "body_id b") (simp_all add: drafted_def)

lemma docs_drafted: "docs (drafted b st) = docs st"
  by (cases "body_id b") (simp_all add: drafted_def)

lemma wf_store_inserted:
  assumes "wf_store st" and "find_by_id (post_id (created b st)) (docs st) = None"
    and "\<not> foresees st (Create b)" and "castable_body b"
  shows "wf_store (inserted b st)"
proof -
  have new: "post_id (created b st) \<notin> post_id ` set (docs st)"
    using assms(2) by (simp add: find_by_id_None)
  have below: "\<forall>p \<in> set (docs st). post_id p < next_id st"
    using assms(1) by (simp add: wf_store_def list_all_iff)
  have "next_id st \<le> next_id (inserted b st)"
    using next_id_drafted [of st b] by (simp add: inserted_def)
  then have "\<forall>p \<in> set (docs st). post_id p < next_id (inserted b st)"
    using below by fastforce
  moreover have "post_id (created b st) < next_id (inserted b st)"
    using assms(3,4)
    by (cases "body_id b") (simp_all add: inserted_def drafted_def created_def castable_body_def)
  ultimately show ?thesis
    using assms(1) new by (simp add: wf_store_def list_all_iff inserted_def)
qed

text \<open>The store a request leaves is the old one, or one of four changes of it.\<close>

lemma handle_store:
  "fst (snd (handle fault req st)) = st
   \<or> (\<exists>b. req = Create b \<and> fst (snd (handle fault req st)) = drafted b st)
   \<or> (\<exists>b. req = Create b \<and> castable_body b
         \<and> find_by_id (post_id (created b st)) (docs st) = None
         \<and> fst (snd (handle fault req st)) = inserted b st)
   \<or> (\<exists>i b. fst (snd (handle fault req st)) =
        st\<lparr>docs := update_first i (set_fields b) (docs st)\<rparr>)
   \<or> (\<exists>i. fst (snd (handle fault req st)) = st\<lparr>docs := remove_first i (docs st)\<rparr>)"
proof (cases req)
  case (Create b)
  show ?thesis
  proof (cases "castable_body b")
    case False
    then show ?thesis using Create by (simp add: post_posts_invalid)
  next
    case True
    show ?thesis
    proof (cases fault)
      case (Some e)
      then show ?thesis using Create True by (simp add: post_posts_fault)
    next
      case None
      show ?thesis
      proof (cases "find_by_id (post_id (created b st)) (docs st)")
        case (Some q)
        then show ?thesis
          using Create True \<open>fault = None\<close> post_posts_duplicate [OF True Some] by simp
      next
        case None
        then show ?thesis
          using Create True \<open>fault = None\<close> post_posts_ok [OF True None] by simp
      qed
    qed
  qed
next
  case ListAll
  then show ?thesis by (cases fault) (simp_all add: get_posts_ok get_posts_fault)
next
  case (Update postId b)
  show ?thesis
  proof (cases "castObjectId postId")
    case None
    then show ?thesis using Update by (simp add: put_posts_malformed)
  next
    case (Some i)
    note cast = this
    show ?thesis
    proof (cases "castable_update b")
      case False
      then show ?thesis using Update cast by (simp add: put_posts_uncastable)
    next
      case True
      show ?thesis
      proof (cases fault)
        case (Some e)
        then show ?thesis using Update cast True by (simp add: put_posts_fault)
      next
        case None
        note nofault = this
        show ?thesis
        proof (cases "conflicting b")
          case True
          then show ?thesis
            using Update cast \<open>castable_update b\<close> nofault by (simp add: put_posts_conflicting)
        next
          case False
          show ?thesis
          proof (cases "find_by_id i (docs st)")
            case None
            then show ?thesis
              using Update cast \<open>castable_update b\<close> nofault False
              by (simp add: put_posts_absent)
          next
            case (Some p)
            show ?thesis
            proof (cases "changes_id b p")
              case True
              then show ?thesis
                using Update nofault
                  put_posts_immutable [OF cast \<open>castable_update b\<close> False Some]
                by simp
            next
              case unchanged: False
              have "accepted_update b p"
                using \<open>castable_update b\<close> False unchanged by (simp add: accepted_update_def)
              then show ?thesis
                using Update nofault put_posts_found [OF cast Some] by auto
            qed
          qed
        qed
      qed
    qed
  qed
next
  case (Delete postId)
  show ?thesis
  proof (cases "castObjectId postId")
    case None
    then show ?thesis using Delete by (simp add: delete_posts_malformed)
  next
    case (Some i)
    note cast = this
    show ?thesis
    proof (cases fault)
      case (Some e)
      then show ?thesis using Delete cast by (simp add: delete_posts_fault)
    next
      case None
      note nofault = this
      show ?thesis
      proof (cases "find_by_id i (docs st)")
        case None
        then show ?thesis using Delete cast nofault by (simp add: delete_posts_absent)
      next
        case (Some p)
        show ?thesis
          using Delete nofault delete_posts_found [OF cast Some] by auto
      qed
    qed
  qed
qed

lemma wf_store_handle:
  "wf_store st \<Longrightarrow> \<not> foresees st req \<Longrightarrow> wf_store (fst (snd (handle fault req st)))"
  using handle_store [of fault req st]
  by (auto simp: wf_store_update wf_store_remove wf_store_drafted wf_store_inserted)



lemma wf_store_run: "wf_store st \<Longrightarrow> unforeseen rs st \<Longrightarrow> wf_store (run rs st)"
proof (induction rs arbitrary: st)
  case Nil
  then show ?case by simp
next
  case (Cons a rs)
  obtain fault req where a: "a = (fault, req)" by (cases a)
  show ?case using Cons a by (simp add: wf_store_handle)
qed

lemma wf_store_reachable:
  "unforeseen rs \<lparr>docs = [], next_id = n\<rparr> \<Longrightarrow> wf_store (run rs \<lparr>docs = [], next_id = n\<rparr>)"
  by (rule wf_store_run) (simp_all add: wf_store_def)

lemma distinct_ids_handle:
  "distinct (map post_id (docs st)) \<Longrightarrow>
   distinct (map post_id (docs (fst (snd (handle fault req st)))))"
proof -
  assume d: "distinct (map post_id (docs st))"
  let ?st' = "fst (snd (handle fault req st))"
  consider "?st' = st"
    | b where "?st' = drafted b st"
    | b where "find_by_id (post_id (created b st)) (docs st) = None" and "?st' = inserted b st"
    | j b where "?st' = st\<lparr>docs := update_first j (set_fields b) (docs st)\<rparr>"
    | j where "?st' = st\<lparr>docs := remove_first j (docs st)\<rparr>"
    using handle_store [of fault req st] by blast
  then show ?thesis
  proof cases
    case 1
    then show ?thesis using d by simp
  next
    case 2
    then show ?thesis using d by (simp add: docs_drafted)
  next
    case 3
    then show ?thesis using d by (simp add: inserted_def find_by_id_None)
  next
    case 4
    then show ?thesis using d by (simp add: ids_update_first)
  next
    case 5
    then show ?thesis using d by (simp add: ids_remove_first)
  qed
qed

lemma distinct_ids_run:
  "distinct (map post_id (docs st)) \<Longrightarrow> distinct (map post_id (docs (run rs st)))"
proof (induction rs arbitrary: st)
  case Nil
  then show ?case by simp
next
  case (Cons a rs)
  obtain fault req where a: "a = (fault, req)" by (cases a)
  show ?case using Cons a by (simp add: distinct_ids_handle)
qed

subsection \<open>Events of a request\<close>

lemma handle_events:
  "\<exists>c code b m x. snd (snd (handle fault req st)) =
      Called c # Responded code b #
        (if code = 404 then [] else [Logged (if code < 400 then Info else Error) m x])"
proof (cases req)
  case (Create b)
  show ?thesis
  proof (cases "castable_body b")
    case False
    then show ?thesis using Create by (simp add: post_posts_invalid failed_def)
  next
    case True
    show ?thesis
    proof (cases fault)
      case (Some e)
      then show ?thesis using Create True by (simp add: post_posts_fault failed_def)
    next
      case None
      show ?thesis
      proof (cases "find_by_id (post_id (created b st)) (docs st)")
        case (Some q)
        then show ?thesis
          using Create \<open>fault = None\<close> post_posts_duplicate [OF True Some]
          by (simp add: failed_def)
      next
        case None
        then show ?thesis
          using Create \<open>fault = None\<close> post_posts_ok [OF True None] by simp
      qed
    qed
  qed
next
  case ListAll
  then show ?thesis by (cases fault) (simp_all add: get_posts_ok get_posts_fault failed_def)
next
  case (Update postId b)
  show ?thesis
  proof (cases "castObjectId postId")
    case None
    then show ?thesis using Update by (simp add: put_posts_malformed failed_def)
  next
    case (Some i)
    note cast = this
    show ?thesis
    proof (cases "castable_update b")
      case False
      then show ?thesis using Update cast by (simp add: put_posts_uncastable failed_def)
    next
      case True
      show ?thesis
      proof (cases fault)
        case (Some e)
        then show ?thesis using Update cast True by (simp add: put_posts_fault failed_def)
      next
        case None
        note nofault = this
        show ?thesis
        proof (cases "find_by_id i (docs st)")
          case None
          show ?thesis
          proof (cases "conflicting b")
            case True
            then show ?thesis
              using Update cast \<open>castable_update b\<close> nofault
              by (simp add: put_posts_conflicting failed_def)
          next
            case False
            then show ?thesis
              using Update cast \<open>castable_update b\<close> nofault None
              by (simp add: put_posts_absent)
          qed
        next
          case (Some p)
          show ?thesis
          proof (cases "accepted_update b p")
            case True
            then show ?thesis
              using Update nofault put_posts_found [OF cast Some] by simp
          next
            case False
            then obtain e where "put_posts None postId b st =
                (Returned (), st, Called FindByIdAndUpdate # failed 400 UpdateFailed e)"
              using put_posts_refused [OF cast Some] by blast
            then show ?thesis using Update nofault by (simp add: failed_def)
          qed
        qed
      qed
    qed
  qed
next
  case (Delete postId)
  show ?thesis
  proof (cases "castObjectId postId")
    case None
    then show ?thesis using Delete by (simp add: delete_posts_malformed failed_def)
  next
    case (Some i)
    note cast = this
    show ?thesis
    proof (cases fault)
      case (Some e)
      then show ?thesis using Delete cast by (simp add: delete_posts_fault failed_def)
    next
      case None
      note nofault = this
      show ?thesis
      proof (cases "find_by_id i (docs st)")
        case None
        then show ?thesis using Delete cast nofault by (simp add: delete_posts_absent)
      next
        case (Some p)
        show ?thesis
          using Delete nofault delete_posts_found [OF cast Some] by simp
      qed
    qed
  qed
qed

lemma responses_append: "responses (s @ t) = responses s @ responses t"
  by (induction s rule: responses.induct) simp_all

lemma handle_returns: "fst (handle fault req st) = Returned ()"
  by (cases req)
    (auto simp: post_posts_def get_posts_def put_posts_def delete_posts_def new_Post_def
      post_save_def Post_find_def Post_findByIdAndUpdate_def Post_findByIdAndDelete_def
      action_defs split: option.splits id_member.splits)

lemma calls_handle: "calls (snd (snd (handle fault req st))) \<noteq> []
    \<and> tl (calls (snd (snd (handle fault req st)))) = []"
proof -
  obtain c code b m x where t: "snd (snd (handle fault req st)) =
      Called c # Responded code b #
        (if code = 404 then [] else [Logged (if code < 400 then Info else Error) m x])"
    using handle_events [of fault req st] by blast
  show ?thesis unfolding t by simp
qed

subsection \<open>Some identifiers\<close>

lemma cast_zero: "castObjectId ''000000000000000000000000'' = Some 0"
  by (simp add: castObjectId_def hex_digit_def)

lemma cast_one: "castObjectId ''000000000000000000000001'' = Some 1"
  by (simp add: castObjectId_def hex_digit_def)

lemma cast_short: "castObjectId ''42'' = None"
  by (simp add: castObjectId_def)

subsection \<open>Routing with and without the documentation viewer\<close>

lemma docs_use_not_after_slash: "\<not> match_use docs_path (CHR ''/'' # rest)"
  by (simp add: match_use_def docs_path_def lower_def)

lemma route_crud_then_docs:
  "route app_layers v p =
     (if route crud_layers v p = Unmatched \<and> match_use docs_path p then ApiDocs
      else route crud_layers v p)"
  by (simp add: app_layers_def crud_layers_def split: option.splits)

section \<open>Claims\<close>

subsection \<open>C1: what an update does to the fields of a post\<close>

text \<open>
  C1 says that an update replaces the fields of the post by the supplied ones, so that a
  field the caller leaves out is lost. The handler passes the body to
  \<^verbatim>\<open>findByIdAndUpdate\<close> as an update document: updating the post with title T and
  content C by a body that has only the content \<open>new\<close> answers 200 with the title
  still T.
\<close>

theorem put_posts_keeps_omitted_title:
  "put_posts None ''000000000000000000000000''
     (no_members\<lparr>body_content := Text ''new''\<rparr>)
     \<lparr>docs = [\<lparr>post_id = 0, title = Some ''T'', content = Some ''C''\<rparr>], next_id = 1\<rparr>
   = (Returned (),
      \<lparr>docs = [\<lparr>post_id = 0, title = Some ''T'', content = Some ''new''\<rparr>], next_id = 1\<rparr>,
      [Called FindByIdAndUpdate,
       Responded 200 (PostBody \<lparr>post_id = 0, title = Some ''T'', content = Some ''new''\<rparr>),
       Logged Info PostUpdated
         (PostBody \<lparr>post_id = 0, title = Some ''T'', content = Some ''new''\<rparr>)])"
  by (simp add: put_posts_def Post_findByIdAndUpdate_def action_defs cast_zero
      castable_update_def castable_def update_title_def update_content_def assigned_def
      conflicting_def changes_id_def find_by_id_def set_fields_def apply_set_def
      no_members_def)

text \<open>
  C1, as the code has it: for every stored post with the identifier of the request and
  every body the server takes as an update of it (what it sets casts, it does not set and
  unset the same path, and it names no other identifier than the post's own), the update
  answers 200 with the updated post, which has the same identifier. A path the update
  sets to a text, by a member of the body or by a member of \<^verbatim>\<open>$set\<close>, has that text;
  a path it sets to \<^verbatim>\<open>null\<close> or names in \<^verbatim>\<open>$unset\<close> is cleared; a path it neither
  sets nor unsets keeps its value, so that a field the body leaves out is preserved
  unless the body unsets it. The store holds the updated post under the identifier and
  every other post as before.
\<close>

theorem put_posts_applies_update:
  assumes "castObjectId postId = Some i"
    and "find_by_id i (docs st) = Some p"
    and "accepted_update b p"
  shows "\<exists>p' st'.
      put_posts None postId b st =
        (Returned (), st',
         [Called FindByIdAndUpdate, Responded 200 (PostBody p'),
          Logged Info PostUpdated (PostBody p')])
      \<and> post_id p' = i
      \<and> (\<forall>s. update_title b = Text s \<longrightarrow> title p' = Some s)
      \<and> (update_title b = Null \<or> unset_title b \<longrightarrow> title p' = None)
      \<and> (update_title b = Omitted \<and> \<not> unset_title b \<longrightarrow> title p' = title p)
      \<and> (\<forall>s. update_content b = Text s \<longrightarrow> content p' = Some s)
      \<and> (update_content b = Null \<or> unset_content b \<longrightarrow> content p' = None)
      \<and> (update_content b = Omitted \<and> \<not> unset_content b \<longrightarrow> content p' = content p)
      \<and> find_by_id i (docs st') = Some p'
      \<and> (\<forall>j. j \<noteq> i \<longrightarrow> find_by_id j (docs st') = find_by_id j (docs st))
      \<and> next_id st' = next_id st"
proof -
  let ?p = "set_fields b p"
  let ?st = "st\<lparr>docs := update_first i (set_fields b) (docs st)\<rparr>"
  have run: "put_posts None postId b st =
      (Returned (), ?st,
       [Called FindByIdAndUpdate, Responded 200 (PostBody ?p),
        Logged Info PostUpdated (PostBody ?p)])"
    using assms by (rule put_posts_found)
  have id: "post_id ?p = i"
    using find_by_id_Some [OF assms(2)] by (simp add: post_id_set_fields)
  have free: "\<not> conflicting b"
    using assms(3) by (simp add: accepted_update_def)
  have t: "(\<forall>s. update_title b = Text s \<longrightarrow> title ?p = Some s)
     \<and> (update_title b = Null \<or> unset_title b \<longrightarrow> title ?p = None)
     \<and> (update_title b = Omitted \<and> \<not> unset_title b \<longrightarrow> title ?p = title p)"
    using free by (auto simp: set_fields_def apply_set_def conflicting_def)
  have c: "(\<forall>s. update_content b = Text s \<longrightarrow> content ?p = Some s)
     \<and> (update_content b = Null \<or> unset_content b \<longrightarrow> content ?p = None)
     \<and> (update_content b = Omitted \<and> \<not> unset_content b \<longrightarrow> content ?p = content p)"
    using free by (auto simp: set_fields_def apply_set_def conflicting_def)
  have stored: "find_by_id i (docs ?st) = Some ?p"
    using assms(2) by (simp add: find_update_first_same)
  have others: "\<forall>j. j \<noteq> i \<longrightarrow> find_by_id j (docs ?st) = find_by_id j (docs st)"
    by (simp add: find_update_first_other)
  have "put_posts None postId b st =
        (Returned (), ?st,
         [Called FindByIdAndUpdate, Responded 200 (PostBody ?p),
          Logged Info PostUpdated (PostBody ?p)])
      \<and> post_id ?p = i
      \<and> (\<forall>s. update_title b = Text s \<longrightarrow> title ?p = Some s)
      \<and> (update_title b = Null \<or> unset_title b \<longrightarrow> title ?p = None)
      \<and> (update_title b = Omitted \<and> \<not> unset_title b \<longrightarrow> title ?p = title p)
      \<and> (\<forall>s. update_content b = Text s \<longrightarrow> content ?p = Some s)
      \<and> (update_content b = Null \<or> unset_content b \<longrightarrow> content ?p = None)
      \<and> (update_content b = Omitted \<and> \<not> unset_content b \<longrightarrow> content ?p = content p)
      \<and> find_by_id i (docs ?st) = Some ?p
      \<and> (\<forall>j. j \<noteq> i \<longrightarrow> find_by_id j (docs ?st) = find_by_id j (docs st))
      \<and> next_id ?st = next_id st"
    using run id t c stored others by simp
  then show ?thesis by blast
qed

theorem put_posts_applies_update_witness:
  "accepted_update (no_members\<lparr>body_content := Text ''new'', unset_title := True\<rparr>)
     \<lparr>post_id = 0, title = Some ''T'', content = Some ''C''\<rparr>
   \<and> (\<exists>p' st'.
      put_posts None ''000000000000000000000000''
        (no_members\<lparr>body_content := Text ''new'', unset_title := True\<rparr>)
        \<lparr>docs = [\<lparr>post_id = 0, title = Some ''T'', content = Some ''C''\<rparr>], next_id = 1\<rparr> =
        (Returned (), st',
         [Called FindByIdAndUpdate, Responded 200 (PostBody p'),
          Logged Info PostUpdated (PostBody p')])
      \<and> post_id p' = 0 \<and> title p' = None \<and> content p' = Some ''new'')"
proof -
  let ?b = "no_members\<lparr>body_content := Text ''new'', unset_title := True\<rparr>"
  let ?p = "\<lparr>post_id = 0, title = Some ''T'', content = Some ''C''\<rparr>"
  let ?st = "\<lparr>docs = [?p], next_id = 1\<rparr>"
  have h2: "find_by_id 0 (docs ?st) = Some ?p" by (simp add: find_by_id_def)
  have h3: "accepted_update ?b ?p"
    by (simp add: accepted_update_def castable_update_def castable_def update_title_def
        update_content_def assigned_def conflicting_def changes_id_def no_members_def)
  have c: "update_content ?b = Text ''new''"
    by (simp add: update_content_def assigned_def no_members_def)
  have u: "unset_title ?b" by simp
  from put_posts_applies_update [OF cast_zero h2 h3]
  obtain p' st' where
    "put_posts None ''000000000000000000000000'' ?b ?st =
        (Returned (), st',
         [Called FindByIdAndUpdate, Responded 200 (PostBody p'),
          Logged Info PostUpdated (PostBody p')])"
    "post_id p' = 0"
    "update_title ?b = Null \<or> unset_title ?b \<longrightarrow> title p' = None"
    "\<forall>s. update_content ?b = Text s \<longrightarrow> content p' = Some s"
    by blast
  then have "put_posts None ''000000000000000000000000'' ?b ?st =
        (Returned (), st',
         [Called FindByIdAndUpdate, Responded 200 (PostBody p'),
          Logged Info PostUpdated (PostBody p')])
      \<and> post_id p' = 0 \<and> title p' = None \<and> content p' = Some ''new''"
    using c u by blast
  then show ?thesis using h3 by blast
qed

subsection \<open>C2: logger entries per request\<close>

text \<open>
  C2 says that every outcome of every route, NotFound among them, emits exactly one
  logger entry. The handlers of the two routes with an identifier return right after
  the 404 response, before any logger call: an update of an identifier that no post has
  emits none.
\<close>

theorem put_posts_not_found_logs_nothing:
  "handle None (Update ''000000000000000000000001'' (no_members\<lparr>body_content := Text ''new''\<rparr>))
     \<lparr>docs = [\<lparr>post_id = 0, title = Some ''T'', content = Some ''C''\<rparr>], next_id = 1\<rparr>
   = (Returned (),
      \<lparr>docs = [\<lparr>post_id = 0, title = Some ''T'', content = Some ''C''\<rparr>], next_id = 1\<rparr>,
      [Called FindByIdAndUpdate, Responded 404 NotFoundMessage])
   \<and> length (logged [Called FindByIdAndUpdate, Responded 404 NotFoundMessage]) = 0"
  by (simp add: put_posts_def Post_findByIdAndUpdate_def action_defs cast_one
      castable_update_def castable_def update_title_def update_content_def assigned_def
      conflicting_def find_by_id_def no_members_def)

text \<open>
  C2, as the code has it: every request to one of the four routes gets exactly one
  response; when the response is not 404 the handler emits exactly one logger entry, at
  level info on success and at level error when the store call failed, and when the
  response is 404 (NotFound) it emits none.
\<close>

theorem one_log_entry_unless_not_found:
  "\<exists>code b.
     responses (snd (snd (handle fault req st))) = [(code, b)]
     \<and> (if code = 404 then logged (snd (snd (handle fault req st))) = []
        else \<exists>m x. logged (snd (snd (handle fault req st))) =
               [(if code < 400 then Info else Error, m, x)])"
proof -
  obtain c code b m x where t: "snd (snd (handle fault req st)) =
      Called c # Responded code b #
        (if code = 404 then [] else [Logged (if code < 400 then Info else Error) m x])"
    using handle_events [of fault req st] by blast
  show ?thesis
    unfolding t by (intro exI [of _ code] exI [of _ b]) simp
qed

theorem one_log_entry_unless_not_found_witness:
  "responses (snd (snd (handle None ListAll \<lparr>docs = [], next_id = 0\<rparr>))) = [(200, PostList [])]
   \<and> logged (snd (snd (handle None ListAll \<lparr>docs = [], next_id = 0\<rparr>))) =
       [(Info, PostsFetched, PostList [])]"
proof -
  have r: "responses (snd (snd (handle None ListAll \<lparr>docs = [], next_id = 0\<rparr>))) = [(200, PostList [])]"
    by (simp add: get_posts_ok)
  have l: "logged (snd (snd (handle None ListAll \<lparr>docs = [], next_id = 0\<rparr>))) \<noteq> []"
    using one_log_entry_unless_not_found [of None ListAll "\<lparr>docs = [], next_id = 0\<rparr>"] r
    by auto
  show ?thesis using r l by (simp add: get_posts_ok)
qed

subsection \<open>C3: creating a post\<close>



subsection \<open>C4: updating an identifier that is unknown or malformed\<close>

text \<open>
  C4 says that PUT answers 404 for every identifier that no post has. The update is cast
  before the store is asked, and every error of the store call is answered with 400: for
  a well-formed identifier that no post has and a body whose title the schema rejects,
  PUT answers 400 and logs at level error.
\<close>

theorem put_posts_unknown_id_rejected_body:
  "castObjectId ''000000000000000000000001'' = Some 1
   \<and> find_by_id 1
       (docs \<lparr>docs = [\<lparr>post_id = 0, title = Some ''T'', content = Some ''C''\<rparr>], next_id = 1\<rparr>)
       = None
   \<and> put_posts None ''000000000000000000000001'' (no_members\<lparr>body_title := Uncastable\<rparr>)
       \<lparr>docs = [\<lparr>post_id = 0, title = Some ''T'', content = Some ''C''\<rparr>], next_id = 1\<rparr>
     = (Returned (),
        \<lparr>docs = [\<lparr>post_id = 0, title = Some ''T'', content = Some ''C''\<rparr>], next_id = 1\<rparr>,
        [Called FindByIdAndUpdate, Responded 400 (ErrorBody CastError),
         Logged Error UpdateFailed (ErrorBody CastError)])"
  by (simp add: put_posts_def Post_findByIdAndUpdate_def action_defs cast_one
      castable_update_def castable_def update_title_def update_content_def assigned_def
      find_by_id_def no_members_def)

text \<open>
  C4, as the code has it. For a well-formed identifier that no post has: when what the
  body sets casts, the body does not set and unset the same path, and the store answers,
  PUT responds 404 with the NotFound message, leaves the store unchanged and logs
  nothing, in particular nothing at level error; when the body sets a value that does not
  cast, or the store call fails, PUT responds 400 with the error, leaves the store
  unchanged and logs at level error. When the store cannot take the identifier as an
  ObjectId, PUT responds 400, whatever the body and the state of the connection.
\<close>

theorem put_posts_unknown_or_malformed_id:
  "(castObjectId postId = Some i \<and> find_by_id i (docs st) = None
      \<and> castable_update b \<and> \<not> conflicting b \<longrightarrow>
      put_posts None postId b st =
        (Returned (), st, [Called FindByIdAndUpdate, Responded 404 NotFoundMessage])
      \<and> logged (snd (snd (put_posts None postId b st))) = [])
   \<and> (castObjectId postId = Some i \<and> \<not> castable_update b \<longrightarrow>
      put_posts fault postId b st =
        (Returned (), st,
         [Called FindByIdAndUpdate, Responded 400 (ErrorBody CastError),
          Logged Error UpdateFailed (ErrorBody CastError)]))
   \<and> (castObjectId postId = Some i \<and> castable_update b \<longrightarrow>
      put_posts (Some e) postId b st =
        (Returned (), st,
         [Called FindByIdAndUpdate, Responded 400 (ErrorBody e),
          Logged Error UpdateFailed (ErrorBody e)]))
   \<and> (castObjectId postId = None \<longrightarrow>
      put_posts fault postId b st =
        (Returned (), st,
         [Called FindByIdAndUpdate, Responded 400 (ErrorBody CastError),
          Logged Error UpdateFailed (ErrorBody CastError)]))"
  by (simp add: put_posts_absent put_posts_malformed put_posts_uncastable put_posts_fault
      failed_def)

theorem put_posts_unknown_or_malformed_id_witness:
  "castObjectId ''000000000000000000000001'' = Some 1
   \<and> find_by_id 1 (docs \<lparr>docs = [\<lparr>post_id = 0, title = Some ''T'', content = Some ''C''\<rparr>], next_id = 1\<rparr>) = None
   \<and> castable_update (no_members\<lparr>body_title := Text ''x''\<rparr>)
   \<and> put_posts None ''000000000000000000000001'' (no_members\<lparr>body_title := Text ''x''\<rparr>)
        \<lparr>docs = [\<lparr>post_id = 0, title = Some ''T'', content = Some ''C''\<rparr>], next_id = 1\<rparr> =
        (Returned (), \<lparr>docs = [\<lparr>post_id = 0, title = Some ''T'', content = Some ''C''\<rparr>], next_id = 1\<rparr>,
         [Called FindByIdAndUpdate, Responded 404 NotFoundMessage])
   \<and> castObjectId ''42'' = None
   \<and> put_posts None ''42'' (no_members\<lparr>body_title := Text ''x''\<rparr>)
        \<lparr>docs = [\<lparr>post_id = 0, title = Some ''T'', content = Some ''C''\<rparr>], next_id = 1\<rparr> =
        (Returned (), \<lparr>docs = [\<lparr>post_id = 0, title = Some ''T'', content = Some ''C''\<rparr>], next_id = 1\<rparr>,
         [Called FindByIdAndUpdate, Responded 400 (ErrorBody CastError),
          Logged Error UpdateFailed (ErrorBody CastError)])
   \<and> put_posts (Some (StorageError ''timeout'')) ''000000000000000000000001''
        (no_members\<lparr>body_title := Text ''x''\<rparr>)
        \<lparr>docs = [\<lparr>post_id = 0, title = Some ''T'', content = Some ''C''\<rparr>], next_id = 1\<rparr> =
        (Returned (), \<lparr>docs = [\<lparr>post_id = 0, title = Some ''T'', content = Some ''C''\<rparr>], next_id = 1\<rparr>,
         [Called FindByIdAndUpdate, Responded 400 (ErrorBody (StorageError ''timeout'')),
          Logged Error UpdateFailed (ErrorBody (StorageError ''timeout''))])"
proof -
  let ?st = "\<lparr>docs = [\<lparr>post_id = 0, title = Some ''T'', content = Some ''C''\<rparr>], next_id = 1\<rparr>"
  let ?b = "no_members\<lparr>body_title := Text ''x''\<rparr>"
  have h2: "find_by_id 1 (docs ?st) = None" by (simp add: find_by_id_def)
  have h3: "castable_update ?b"
    by (simp add: castable_update_def castable_def update_title_def update_content_def
        assigned_def no_members_def)
  have h4: "\<not> conflicting ?b"
    by (simp add: conflicting_def no_members_def)
  show ?thesis
    using put_posts_unknown_or_malformed_id
        [of "''000000000000000000000001''" 1 ?st ?b None "StorageError ''timeout''"]
      put_posts_unknown_or_malformed_id
        [of "''42''" 0 ?st ?b None "StorageError ''timeout''"]
      cast_one cast_short h2 h3 h4
    by simp
qed

subsection \<open>C5: deleting a post\<close>




subsection \<open>C6: listing the posts\<close>

text \<open>
  C6: GET /posts responds 200 with all stored posts, which is the empty list when there
  are none, and 500 with the error when the store fails.
\<close>

theorem get_posts_lists_all:
  "get_posts None st =
     (Returned (), st,
      [Called Find, Responded 200 (PostList (docs st)),
       Logged Info PostsFetched (PostList (docs st))])
   \<and> (docs st = [] \<longrightarrow> responses (snd (snd (get_posts None st))) = [(200, PostList [])])
   \<and> get_posts (Some e) st =
     (Returned (), st,
      [Called Find, Responded 500 (ErrorBody e), Logged Error FetchFailed (ErrorBody e)])"
  by (simp add: get_posts_ok get_posts_fault failed_def)

theorem get_posts_lists_all_witness:
  "docs \<lparr>docs = [], next_id = 3\<rparr> = []
   \<and> responses (snd (snd (get_posts None \<lparr>docs = [], next_id = 3\<rparr>))) = [(200, PostList [])]
   \<and> get_posts (Some (StorageError ''connection refused'')) \<lparr>docs = [], next_id = 3\<rparr> =
     (Returned (), \<lparr>docs = [], next_id = 3\<rparr>,
      [Called Find, Responded 500 (ErrorBody (StorageError ''connection refused'')),
       Logged Error FetchFailed (ErrorBody (StorageError ''connection refused''))])"
  using get_posts_lists_all [of "\<lparr>docs = [], next_id = 3\<rparr>" "StorageError ''connection refused''"]
  by simp

subsection \<open>C7: create, list, update, delete\<close>

text \<open>
  C7: start from a store with no posts and let the store answer every call. Create a
  post, read it in the listing, update it under the identifier read there, delete it
  under the same identifier: the collection is empty again, as it was before the
  creation, and the four responses are 201, 200, 200 and 204 (the third one is 400 when
  the server does not take the body as an update of the post, which then is deleted as
  it was created). (The supply of fresh identifiers has moved on: the identifier of the
  deleted post is not generated again.)
\<close>

theorem crud_round_trip:
  assumes "docs st0 = []"
    and "castable_body b1"
    and "post_posts None b1 st0 = (r1, st1, t1)"
    and "get_posts None st1 = (r2, st2, t2)"
    and "responses t2 = [(code, PostList l)]" and "p \<in> set l"
    and "castObjectId postId = Some (post_id p)"
    and "put_posts None postId b2 st2 = (r3, st3, t3)"
    and "delete_posts None postId st3 = (r4, st4, t4)"
  shows "docs st4 = [] \<and> docs st4 = docs st0
         \<and> map fst (responses (t1 @ t2 @ t3 @ t4)) =
             [201, 200, if accepted_update b2 p then 200 else 400, 204]"
proof -
  let ?p = "created b1 st0"
  let ?i = "post_id ?p"
  have unused: "find_by_id ?i (docs st0) = None"
    using assms(1) by (simp add: find_by_id_def)
  have s1: "st1 = inserted b1 st0"
    and t1: "responses t1 = [(201, PostBody ?p)]"
    using assms(3) post_posts_ok [OF assms(2) unused] by auto
  have d1: "docs st1 = [?p]"
    using s1 assms(1) by (simp add: inserted_def)
  have s2: "st2 = st1" and t2: "t2 = [Called Find, Responded 200 (PostList (docs st1)),
       Logged Info PostsFetched (PostList (docs st1))]"
    using assms(4) get_posts_ok [of st1] by auto
  have "l = [?p]" using assms(5) t2 d1 by simp
  then have p: "p = ?p" using assms(6) by simp
  then have cast: "castObjectId postId = Some ?i"
    using assms(7) by simp
  have found: "find_by_id ?i (docs st2) = Some ?p"
    using d1 s2 by (simp add: find_by_id_def)
  have upd: "docs st3 = [if accepted_update b2 p then set_fields b2 ?p else ?p]
      \<and> map fst (responses t3) = [if accepted_update b2 p then 200 else 400]"
  proof (cases "accepted_update b2 ?p")
    case True
    then show ?thesis
      using assms(8) put_posts_found [OF cast found True] p d1 s2 by auto
  next
    case False
    then obtain e where "put_posts None postId b2 st2 =
        (Returned (), st2, Called FindByIdAndUpdate # failed 400 UpdateFailed e)"
      using put_posts_refused [OF cast found] by blast
    then show ?thesis
      using assms(8) False p d1 s2 by (auto simp: failed_def)
  qed
  let ?q = "if accepted_update b2 p then set_fields b2 ?p else ?p"
  have found3: "find_by_id ?i (docs st3) = Some ?q"
    using upd by (simp add: find_by_id_def post_id_set_fields)
  have s4: "st4 = st3\<lparr>docs := remove_first ?i (docs st3)\<rparr>"
    and t4: "responses t4 = [(204, NoBody)]"
    using assms(9) delete_posts_found [OF cast found3] by auto
  have "docs st4 = []"
    using s4 upd by (simp add: post_id_set_fields)
  moreover have "responses (t1 @ t2 @ t3 @ t4) =
      responses t1 @ responses t2 @ responses t3 @ responses t4"
    by (simp add: responses_append)
  ultimately show ?thesis
    using assms(1) t1 t2 upd t4 by simp
qed

theorem crud_round_trip_witness:
  "post_posts None (no_members\<lparr>body_title := Text ''T'', body_content := Text ''C''\<rparr>)
       \<lparr>docs = [], next_id = 0\<rparr> =
     (Returned (),
      \<lparr>docs = [\<lparr>post_id = 0, title = Some ''T'', content = Some ''C''\<rparr>], next_id = 1\<rparr>,
      [Called Save,
       Responded 201 (PostBody \<lparr>post_id = 0, title = Some ''T'', content = Some ''C''\<rparr>),
       Logged Info PostCreated (PostBody \<lparr>post_id = 0, title = Some ''T'', content = Some ''C''\<rparr>)])
   \<and> put_posts None ''000000000000000000000000''
       (no_members\<lparr>body_title := Text ''U''\<rparr>)
       \<lparr>docs = [\<lparr>post_id = 0, title = Some ''T'', content = Some ''C''\<rparr>], next_id = 1\<rparr> =
     (Returned (),
      \<lparr>docs = [\<lparr>post_id = 0, title = Some ''U'', content = Some ''C''\<rparr>], next_id = 1\<rparr>,
      [Called FindByIdAndUpdate,
       Responded 200 (PostBody \<lparr>post_id = 0, title = Some ''U'', content = Some ''C''\<rparr>),
       Logged Info PostUpdated (PostBody \<lparr>post_id = 0, title = Some ''U'', content = Some ''C''\<rparr>)])
   \<and> delete_posts None ''000000000000000000000000''
       \<lparr>docs = [\<lparr>post_id = 0, title = Some ''U'', content = Some ''C''\<rparr>], next_id = 1\<rparr> =
     (Returned (), \<lparr>docs = [], next_id = 1\<rparr>,
      [Called FindByIdAndDelete, Responded 204 NoBody,
       Logged Info PostDeleted (PostBody \<lparr>post_id = 0, title = Some ''U'', content = Some ''C''\<rparr>)])
   \<and> docs \<lparr>docs = [], next_id = 1\<rparr> = docs \<lparr>docs = [], next_id = 0\<rparr>"
proof -
  let ?b1 = "no_members\<lparr>body_title := Text ''T'', body_content := Text ''C''\<rparr>"
  let ?b2 = "no_members\<lparr>body_title := Text ''U''\<rparr>"
  let ?p = "\<lparr>post_id = 0, title = Some ''T'', content = Some ''C''\<rparr>"
  let ?q = "\<lparr>post_id = 0, title = Some ''U'', content = Some ''C''\<rparr>"
  let ?st0 = "\<lparr>docs = [], next_id = 0\<rparr>"
  let ?st1 = "\<lparr>docs = [?p], next_id = 1\<rparr>"
  let ?st3 = "\<lparr>docs = [?q], next_id = 1\<rparr>"
  let ?st4 = "\<lparr>docs = [], next_id = 1\<rparr>"
  let ?t2 = "[Called Find, Responded 200 (PostList [?p]), Logged Info PostsFetched (PostList [?p])]"
  have e: "docs ?st0 = []" by simp
  have b1: "castable_body ?b1" by (simp add: castable_body_def castable_def no_members_def)
  have c: "post_posts None ?b1 ?st0 =
      (Returned (), ?st1,
       [Called Save, Responded 201 (PostBody ?p), Logged Info PostCreated (PostBody ?p)])"
    by (simp add: post_posts_def new_Post_def post_save_def action_defs castable_body_def
        castable_def field_value_def find_by_id_def no_members_def)
  have g: "get_posts None ?st1 = (Returned (), ?st1, ?t2)"
    by (simp add: get_posts_ok)
  have rs: "responses ?t2 = [(200, PostList [?p])]" by simp
  have mem: "?p \<in> set [?p]" by simp
  have cast: "castObjectId ''000000000000000000000000'' = Some (post_id ?p)"
    by (simp add: cast_zero)
  have f1: "find_by_id 0 (docs ?st1) = Some ?p" by (simp add: find_by_id_def)
  have ok: "accepted_update ?b2 ?p"
    by (simp add: accepted_update_def castable_update_def castable_def update_title_def
        update_content_def assigned_def conflicting_def changes_id_def no_members_def)
  have u: "put_posts None ''000000000000000000000000'' ?b2 ?st1 =
      (Returned (), ?st3,
       [Called FindByIdAndUpdate, Responded 200 (PostBody ?q), Logged Info PostUpdated (PostBody ?q)])"
    using put_posts_found [OF cast_zero f1 ok]
    by (simp add: set_fields_def apply_set_def update_title_def update_content_def
        assigned_def no_members_def)
  have f3: "find_by_id 0 (docs ?st3) = Some ?q" by (simp add: find_by_id_def)
  have d: "delete_posts None ''000000000000000000000000'' ?st3 =
      (Returned (), ?st4,
       [Called FindByIdAndDelete, Responded 204 NoBody, Logged Info PostDeleted (PostBody ?q)])"
    using delete_posts_found [OF cast_zero f3] by simp
  from crud_round_trip [OF e b1 c g rs mem cast u d]
  have "docs ?st4 = docs ?st0" by simp
  then show ?thesis using c u d by simp
qed

subsection \<open>C8: the order of the response and the logger entry\<close>

text \<open>
  C8 says that the logger entry of a request is written before the handler returns the
  response. In every handler the call that sends the response stands before the logger
  call: creating a post sends 201 and then logs. On the NotFound outcome the handler
  returns after the response and there is no entry, before or after.
\<close>

theorem response_precedes_logger_entry:
  "snd (snd (handle None
       (Create (no_members\<lparr>body_title := Text ''T'', body_content := Text ''C''\<rparr>))
       \<lparr>docs = [], next_id = 0\<rparr>)) =
     [Called Save,
      Responded 201 (PostBody \<lparr>post_id = 0, title = Some ''T'', content = Some ''C''\<rparr>),
      Logged Info PostCreated (PostBody \<lparr>post_id = 0, title = Some ''T'', content = Some ''C''\<rparr>)]
   \<and> \<not> log_precedes_response
       (snd (snd (handle None
         (Create (no_members\<lparr>body_title := Text ''T'', body_content := Text ''C''\<rparr>))
         \<lparr>docs = [], next_id = 0\<rparr>)))
   \<and> snd (snd (handle None (Delete ''000000000000000000000001'')
       \<lparr>docs = [\<lparr>post_id = 0, title = Some ''T'', content = Some ''C''\<rparr>], next_id = 1\<rparr>)) =
     [Called FindByIdAndDelete, Responded 404 NotFoundMessage]"
proof -
  have f: "find_by_id 1
      (docs \<lparr>docs = [\<lparr>post_id = 0, title = Some ''T'', content = Some ''C''\<rparr>], next_id = 1\<rparr>) = None"
    by (simp add: find_by_id_def)
  have c: "snd (snd (post_posts None
       (no_members\<lparr>body_title := Text ''T'', body_content := Text ''C''\<rparr>)
       \<lparr>docs = [], next_id = 0\<rparr>)) =
     [Called Save,
      Responded 201 (PostBody \<lparr>post_id = 0, title = Some ''T'', content = Some ''C''\<rparr>),
      Logged Info PostCreated (PostBody \<lparr>post_id = 0, title = Some ''T'', content = Some ''C''\<rparr>)]"
    by (simp add: post_posts_def new_Post_def post_save_def action_defs castable_body_def
        castable_def field_value_def find_by_id_def no_members_def)
  show ?thesis
    using c delete_posts_absent [OF cast_one f] by simp
qed

text \<open>
  C8, as the code has it: for every request to one of the four routes the handler calls
  the store once, then sends the response, and then, unless the response is 404, makes
  its one logger call, which is its last action; no logger entry comes before the
  response.
\<close>

theorem response_then_logger_entry:
  "\<exists>c code b.
     snd (snd (handle fault req st)) =
       [Called c, Responded code b]
       @ map (\<lambda>(l, m, x). Logged l m x) (logged (snd (snd (handle fault req st))))
     \<and> length (logged (snd (snd (handle fault req st)))) = (if code = 404 then 0 else 1)
     \<and> \<not> log_precedes_response (snd (snd (handle fault req st)))"
proof -
  obtain c code b m x where t: "snd (snd (handle fault req st)) =
      Called c # Responded code b #
        (if code = 404 then [] else [Logged (if code < 400 then Info else Error) m x])"
    using handle_events [of fault req st] by blast
  show ?thesis
    unfolding t by (intro exI [of _ c] exI [of _ code] exI [of _ b]) simp
qed

theorem response_then_logger_entry_witness:
  "\<exists>c code b.
     snd (snd (handle (Some (StorageError ''timeout'')) ListAll \<lparr>docs = [], next_id = 0\<rparr>)) =
       [Called c, Responded code b,
        Logged Error FetchFailed (ErrorBody (StorageError ''timeout''))]"
proof -
  let ?t = "snd (snd (handle (Some (StorageError ''timeout'')) ListAll \<lparr>docs = [], next_id = 0\<rparr>))"
  have l: "logged ?t = [(Error, FetchFailed, ErrorBody (StorageError ''timeout''))]"
    by (simp add: get_posts_fault failed_def)
  from response_then_logger_entry
    [of "Some (StorageError ''timeout'')" ListAll "\<lparr>docs = [], next_id = 0\<rparr>"]
  obtain c code b where
    "?t = [Called c, Responded code b] @ map (\<lambda>(l, m, x). Logged l m x) (logged ?t)"
    by blast
  then have "?t = [Called c, Responded code b,
        Logged Error FetchFailed (ErrorBody (StorageError ''timeout''))]"
    unfolding l by simp
  then show ?thesis by blast
qed

subsection \<open>C9: errors of the store stop at the handler\<close>

text \<open>
  C9: whatever the request and whatever the store does, the handler completes normally
  (nothing is thrown past it) and has called the store exactly once; and when that call
  throws an error, the handler leaves the store as the failed call left it and answers
  with the status of its \<^verbatim>\<open>catch\<close> block (400 for POST and PUT, 500 for GET and
  DELETE) and the error as body, and logs it at level error.
\<close>

theorem store_errors_are_caught:
  "fst (handle fault req st) = Returned ()
   \<and> length (calls (snd (snd (handle fault req st)))) = 1
   \<and> (\<forall>e. fst (store_op fault req st) = Thrown e \<longrightarrow>
        handle fault req st =
          (Returned (), fst (snd (store_op fault req st)),
           snd (snd (store_op fault req st))
           @ [Responded (catch_status req) (ErrorBody e),
              Logged Error (catch_message req) (ErrorBody e)]))"
proof (intro conjI allI impI)
  show "fst (handle fault req st) = Returned ()" by (rule handle_returns)
  show "length (calls (snd (snd (handle fault req st)))) = 1"
    using calls_handle [of fault req st]
    by (cases "calls (snd (snd (handle fault req st)))") simp_all
next
  fix e
  assume "fst (store_op fault req st) = Thrown e"
  then show "handle fault req st =
          (Returned (), fst (snd (store_op fault req st)),
           snd (snd (store_op fault req st))
           @ [Responded (catch_status req) (ErrorBody e),
              Logged Error (catch_message req) (ErrorBody e)])"
    by (cases req)
      (auto simp: post_posts_def get_posts_def put_posts_def delete_posts_def new_Post_def
        post_save_def Post_find_def Post_findByIdAndUpdate_def Post_findByIdAndDelete_def
        action_defs split: option.splits if_splits id_member.splits)
qed

theorem store_errors_are_caught_witness:
  "fst (store_op None (Delete ''42'') \<lparr>docs = [], next_id = 0\<rparr>) = Thrown CastError
   \<and> handle None (Delete ''42'') \<lparr>docs = [], next_id = 0\<rparr> =
       (Returned (), \<lparr>docs = [], next_id = 0\<rparr>,
        [Called FindByIdAndDelete, Responded 500 (ErrorBody CastError),
         Logged Error DeleteFailed (ErrorBody CastError)])"
proof -
  let ?st = "\<lparr>docs = [], next_id = 0\<rparr>"
  have op: "store_op None (Delete ''42'') ?st = (Thrown CastError, ?st, [Called FindByIdAndDelete])"
    by (simp add: Post_findByIdAndDelete_def action_defs cast_short)
  then have thrown: "fst (store_op None (Delete ''42'') ?st) = Thrown CastError" by simp
  from store_errors_are_caught [of None "Delete ''42''" ?st] thrown
  have "handle None (Delete ''42'') ?st =
          (Returned (), fst (snd (store_op None (Delete ''42'') ?st)),
           snd (snd (store_op None (Delete ''42'') ?st))
           @ [Responded (catch_status (Delete ''42'')) (ErrorBody CastError),
              Logged Error (catch_message (Delete ''42'')) (ErrorBody CastError)])"
    by blast
  then show ?thesis using thrown unfolding op by simp
qed

subsection \<open>C10: where the documentation viewer is mounted\<close>

text \<open>
  C10: the path given to \<^verbatim>\<open>app.use\<close> for the documentation viewer is the string
  that starts and ends with a backtick around \<^verbatim>\<open>/api-docs\<close>. The viewer answers
  that literal path only: a request to \<^verbatim>\<open>/api-docs\<close> matches no layer, and no path
  that starts with a slash reaches the viewer. Every request that one of the four routes
  matches is served as if the viewer were not mounted.
\<close>

theorem docs_viewer_behind_backticks:
  "docs_path = CHR 0x60 # ''/api-docs'' @ [CHR 0x60]
   \<and> hd docs_path = CHR 0x60 \<and> last docs_path = CHR 0x60
   \<and> route app_layers v docs_path = ApiDocs
   \<and> route app_layers v ''/api-docs'' = Unmatched
   \<and> route app_layers v (CHR ''/'' # rest) = route crud_layers v (CHR ''/'' # rest)
   \<and> (route crud_layers (req_verb req) (req_path req) \<noteq> Unmatched \<longrightarrow>
        serve app_layers fault req st = serve crud_layers fault req st)"
proof (intro conjI impI)
  show "docs_path = CHR 0x60 # ''/api-docs'' @ [CHR 0x60]"
    and "hd docs_path = CHR 0x60" and "last docs_path = CHR 0x60"
    by (simp_all add: docs_path_def)
  show "route app_layers v docs_path = ApiDocs"
    by (cases v)
      (simp_all add: app_layers_def crud_layers_def docs_path_def match_posts_def
        match_posts_postId_def match_use_def lower_def)
  have slash: "\<not> match_use docs_path (CHR ''/'' # r)" for r
    by (rule docs_use_not_after_slash)
  show "route app_layers v (CHR ''/'' # rest) = route crud_layers v (CHR ''/'' # rest)"
    by (simp add: route_crud_then_docs slash)
  have "route crud_layers v ''/api-docs'' = Unmatched"
    by (cases v)
      (simp_all add: crud_layers_def match_posts_def match_posts_postId_def lower_def)
  then show "route app_layers v ''/api-docs'' = Unmatched"
    using slash [of "''api-docs''"] by (simp add: route_crud_then_docs)
next
  assume "route crud_layers (req_verb req) (req_path req) \<noteq> Unmatched"
  then have "route app_layers (req_verb req) (req_path req) =
      route crud_layers (req_verb req) (req_path req)"
    by (simp add: route_crud_then_docs)
  then show "serve app_layers fault req st = serve crud_layers fault req st"
    by (simp add: serve_def)
qed

theorem docs_viewer_behind_backticks_witness:
  "route crud_layers GET ''/posts'' = GetPosts
   \<and> serve app_layers None \<lparr>req_verb = GET, req_path = ''/posts'',
        req_body = no_members\<rparr> \<lparr>docs = [], next_id = 0\<rparr> =
     (Returned (), \<lparr>docs = [], next_id = 0\<rparr>,
      [Called Find, Responded 200 (PostList []), Logged Info PostsFetched (PostList [])])"
proof -
  let ?req = "\<lparr>req_verb = GET, req_path = ''/posts'', req_body = no_members\<rparr>"
  let ?st = "\<lparr>docs = [], next_id = 0\<rparr>"
  have r: "route crud_layers GET ''/posts'' = GetPosts"
    by (simp add: crud_layers_def match_posts_def lower_def)
  then have m: "route crud_layers (req_verb ?req) (req_path ?req) \<noteq> Unmatched" by simp
  have "serve app_layers None ?req ?st = serve crud_layers None ?req ?st"
    using docs_viewer_behind_backticks [of GET "[]" ?req None ?st] m by blast
  then show ?thesis using r by (simp add: serve_def get_posts_ok)
qed

end
